theory Spec2Isabelle
  imports Main "HOL-Library.Sublist"
begin

section \<open>Python strings\<close>

text \<open>
  A Python \<open>str\<close> is a sequence of Unicode code points, and \<open>find\<close>, \<open>rfind\<close>, slicing and
  \<open>len\<close> count code points. A text is therefore a list of code points (natural numbers);
  \<open>S\<close> turns an ASCII literal into such a text.
\<close>

type_synonym pystr = "nat list"

definition S :: "string \<Rightarrow> pystr" where
  "S cs = map of_char cs"

text \<open>
  The characters \<open>str.strip()\<close> removes when called without argument: those for which
  CPython's \<open>_PyUnicode_IsWhitespace\<close> holds.
\<close>

definition is_space :: "nat \<Rightarrow> bool" where
  "is_space c \<longleftrightarrow>
     (9 \<le> c \<and> c \<le> 13) \<or> (28 \<le> c \<and> c \<le> 32) \<or> c = 133 \<or> c = 160 \<or> c = 5760
     \<or> (8192 \<le> c \<and> c \<le> 8202) \<or> c = 8232 \<or> c = 8233 \<or> c = 8239 \<or> c = 8287
     \<or> c = 12288"

definition py_strip :: "pystr \<Rightarrow> pystr" where
  "py_strip s = rev (dropWhile is_space (rev (dropWhile is_space s)))"

text \<open>\<open>sub in s\<close>: \<open>sub\<close> occurs in \<open>s\<close> as a contiguous run.\<close>

fun py_in :: "'a list \<Rightarrow> 'a list \<Rightarrow> bool" where
  "py_in sub [] \<longleftrightarrow> sub = []"
| "py_in sub (x # xs) \<longleftrightarrow> prefix sub (x # xs) \<or> py_in sub xs"

text \<open>The lowest and the highest position at which \<open>sub\<close> occurs, if any.\<close>

fun find_first :: "'a list \<Rightarrow> 'a list \<Rightarrow> nat option" where
  "find_first sub [] = (if sub = [] then Some 0 else None)"
| "find_first sub (x # xs) =
     (if prefix sub (x # xs) then Some 0 else map_option Suc (find_first sub xs))"

fun find_last :: "'a list \<Rightarrow> 'a list \<Rightarrow> nat option" where
  "find_last sub [] = (if sub = [] then Some 0 else None)"
| "find_last sub (x # xs) =
     (case find_last sub xs of
        Some i \<Rightarrow> Some (Suc i)
      | None \<Rightarrow> if prefix sub (x # xs) then Some 0 else None)"

text \<open>
  \<open>s.find(sub, start)\<close>: the lowest index \<open>\<ge> start\<close> where \<open>sub\<close> occurs, or \<open>-1\<close>.
  A negative \<open>start\<close> counts from the end; a \<open>start\<close> beyond the end finds nothing.
\<close>

definition py_find :: "'a list \<Rightarrow> 'a list \<Rightarrow> int \<Rightarrow> int" where
  "py_find s sub start =
     (let n = int (length s);
          b = (if start < 0 then max 0 (n + start) else start)
      in if b > n then - 1
         else (case find_first sub (drop (nat b) s) of
                 None \<Rightarrow> - 1
               | Some i \<Rightarrow> b + int i))"

definition py_rfind :: "'a list \<Rightarrow> 'a list \<Rightarrow> int" where
  "py_rfind s sub = (case find_last sub s of None \<Rightarrow> - 1 | Some i \<Rightarrow> int i)"

text \<open>
  \<open>s[a:b]\<close>: a negative bound counts from the end, every bound is clamped to
  \<open>0 .. len(s)\<close>, and the slice is empty when the upper bound is not above the lower.
\<close>

definition clamp_index :: "nat \<Rightarrow> int \<Rightarrow> nat" where
  "clamp_index n i = (if i < 0 then nat (max 0 (int n + i)) else min n (nat i))"

definition py_slice :: "'a list \<Rightarrow> int \<Rightarrow> int \<Rightarrow> 'a list" where
  "py_slice s a b =
     (let lo = clamp_index (length s) a; hi = clamp_index (length s) b
      in take (hi - lo) (drop lo s))"

text \<open>\<open>sep.join(xs)\<close>.\<close>

fun py_join :: "'a list \<Rightarrow> 'a list list \<Rightarrow> 'a list" where
  "py_join sep [] = []"
| "py_join sep [x] = x"
| "py_join sep (x # y # ys) = x @ sep @ py_join sep (y # ys)"

section \<open>Response extraction\<close>

definition fence_html :: pystr where
  "fence_html = S ''```html''"

definition fence :: pystr where
  "fence = S ''```''"

definition doctype :: pystr where
  "doctype = S ''<!DOCTYPE''"

definition closing_tag :: pystr where
  "closing_tag = S ''</html>''"

text \<open>\<open>CanvaToHTMLAgent._extract_html\<close>.\<close>

definition extract_html :: "pystr \<Rightarrow> pystr" where
  "extract_html response_text =
     (if py_in fence_html response_text then
        (let start = py_find response_text fence_html 0 + 7;
             end = py_find response_text fence start
         in py_strip (py_slice response_text start end))
      else if py_in fence response_text then
        (let start = py_find response_text fence 0 + 3;
             end = py_find response_text fence start
         in py_strip (py_slice response_text start end))
      else if py_in doctype response_text then
        (let start = py_find response_text doctype 0;
             end = py_rfind response_text closing_tag + 7
         in if end > start then py_strip (py_slice response_text start end)
            else py_strip response_text)
      else py_strip response_text)"

section \<open>Result dictionaries\<close>

text \<open>
  Both agent methods return a \<open>dict\<close> with string keys whose values are strings or
  booleans. \<open>d.get(k)\<close> is the lookup \<open>d k\<close>, with \<open>None\<close> for a missing key.
\<close>

datatype pyval = VStr pystr | VBool bool

type_synonym pydict = "string \<rightharpoonup> pyval"

text \<open>The truth value of \<open>d.get(k)\<close> in a condition.\<close>

definition truthy :: "pyval option \<Rightarrow> bool" where
  "truthy v = (case v of None \<Rightarrow> False | Some (VStr s) \<Rightarrow> s \<noteq> [] | Some (VBool b) \<Rightarrow> b)"

text \<open>The text an f-string puts for \<open>{d.get(k)}\<close>.\<close>

definition fmt :: "pyval option \<Rightarrow> pystr" where
  "fmt v = (case v of
              None \<Rightarrow> S ''None''
            | Some (VStr s) \<Rightarrow> s
            | Some (VBool b) \<Rightarrow> (if b then S ''True'' else S ''False''))"

section \<open>The generation service\<close>

text \<open>
  \<open>self.model.generate_content([prompt, image])\<close> followed by \<open>response.text\<close>, as one
  step of a remote service with a state of its own. The step ends in one of three ways:
  a reply text; an exception \<open>e\<close> of class \<open>Exception\<close>, kept as \<open>str(e)\<close>; or an
  exception outside \<open>Exception\<close> (a \<open>BaseException\<close> such as \<open>KeyboardInterrupt\<close>),
  kept by its name, which an \<open>except Exception\<close> clause does not catch. The world also
  keeps the list of prompts sent so far, one entry per request.
\<close>

datatype outcome = Reply pystr | Raised pystr | Escaped pystr

type_synonym ('w, 'img) model = "'w \<Rightarrow> pystr \<Rightarrow> 'img \<Rightarrow> outcome \<times> 'w"

record 'w world =
  remote :: 'w
  sent :: "pystr list"

definition generate_content ::
  "('w, 'img) model \<Rightarrow> 'w world \<Rightarrow> pystr \<Rightarrow> 'img \<Rightarrow> outcome \<times> 'w world" where
  "generate_content m w prompt img =
     (case m (remote w) prompt img of
        (r, remote') \<Rightarrow> (r, \<lparr>remote = remote', sent = sent w @ [prompt]\<rparr>))"

section \<open>The agent\<close>

text \<open>
  The dictionary of customizations the button handler builds always has the same six
  keys, five strings (empty for "keep the original") and one boolean.
\<close>

record customizations =
  color_scheme :: pystr
  font_size :: pystr
  spacing :: pystr
  button_style :: pystr
  animations :: bool
  custom_instructions :: pystr

definition base_prompt :: pystr where
  "base_prompt =
     S ''Analyze this web design template image in extreme detail:\<newline>\<newline>'' @
     S ''1. LAYOUT STRUCTURE: sections, grid, hierarchy\<newline>'' @
     S ''2. COLOR SCHEME: backgrounds, text, buttons, accents (hex codes)\<newline>'' @
     S ''3. TYPOGRAPHY: heading styles, body text, font weights\<newline>'' @
     S ''4. UI ELEMENTS: buttons, forms, images, icons, navigation\<newline>'' @
     S ''5. SPACING: padding, margins, alignment\<newline>'' @
     S ''6. SPECIAL EFFECTS: shadows, borders, gradients''"

text \<open>The prompt \<open>analyze_design\<close> sends.\<close>

definition analysis_prompt :: "pystr \<Rightarrow> pystr" where
  "analysis_prompt instructions =
     (if instructions \<noteq> []
      then base_prompt @ S ''\<newline>\<newline>ADDITIONAL FOCUS:\<newline>'' @ instructions
      else base_prompt)"

text \<open>
  \<open>CanvaToHTMLAgent.analyze_design\<close>. The method returns a dictionary (\<open>Inr\<close>), or
  an exception that its \<open>except Exception\<close> clause does not catch leaves it (\<open>Inl\<close>).
\<close>

definition analyze_design ::
  "('w, 'img) model \<Rightarrow> 'w world \<Rightarrow> 'img \<Rightarrow> pystr \<Rightarrow> (pystr + pydict) \<times> 'w world" where
  "analyze_design m w img instructions =
     (case generate_content m w (analysis_prompt instructions) img of
        (Reply text, w') \<Rightarrow>
          (Inr [''raw_analysis'' \<mapsto> VStr text, ''success'' \<mapsto> VBool True], w')
      | (Raised e, w') \<Rightarrow> (Inr [''error'' \<mapsto> VStr e, ''success'' \<mapsto> VBool False], w')
      | (Escaped x, w') \<Rightarrow> (Inl x, w'))"

text \<open>The list \<open>custom_css\<close> that \<open>generate_html_css\<close> builds by successive appends.\<close>

definition custom_css :: "customizations \<Rightarrow> pystr list" where
  "custom_css c =
     (let css = [];
          css = (if color_scheme c \<noteq> []
                 then css @ [S ''Use a '' @ color_scheme c @ S '' color scheme''] else css);
          css = (if font_size c \<noteq> []
                 then css @ [S ''Use '' @ font_size c @ S '' font sizes''] else css);
          css = (if spacing c \<noteq> []
                 then css @ [S ''Use '' @ spacing c @ S '' spacing''] else css);
          css = (if button_style c \<noteq> []
                 then css @ [S ''Style buttons as '' @ button_style c] else css);
          css = (if animations c
                 then css @ [S ''Add smooth CSS animations and transitions''] else css);
          css = (if custom_instructions c \<noteq> []
                 then css @ [custom_instructions c] else css)
      in css)"

definition customization_text :: "customizations \<Rightarrow> pystr" where
  "customization_text c =
     (if custom_css c \<noteq> [] then py_join (S ''\<newline>- '') (custom_css c)
      else S ''Follow original design'')"

text \<open>
  The f-string \<open>code_prompt\<close>, with its two holes: the analysis text and the
  customization text.
\<close>

definition code_prompt :: "pystr \<Rightarrow> pystr \<Rightarrow> pystr" where
  "code_prompt analysis_text cust_text =
     S ''Generate complete HTML and CSS code based on this analysis:\<newline>\<newline>'' @
     S ''ANALYSIS:\<newline>'' @
     analysis_text @
     S ''\<newline>\<newline>CUSTOMIZATIONS:\<newline>- '' @
     cust_text @
     S ''\<newline>\<newline>REQUIREMENTS:\<newline>'' @
     S ''1. Complete HTML5 document with DOCTYPE\<newline>'' @
     S ''2. Semantic HTML5 tags (header, nav, main, section, footer)\<newline>'' @
     S ''3. Modern CSS (Flexbox/Grid for layout)\<newline>'' @
     S ''4. Fully responsive (mobile-friendly with media queries)\<newline>'' @
     S ''5. Include ALL elements: text, buttons, forms, images (use https://placehold.co/800x400 for images)\<newline>'' @
     S ''6. Match colors exactly (use hex codes)\<newline>'' @
     S ''7. Add hover effects and transitions\<newline>'' @
     S ''8. Include viewport meta tag\<newline>'' @
     S ''9. Embed all CSS in <style> tag\<newline>'' @
     S ''10. Add helpful comments\<newline>\<newline>'' @
     S ''OUTPUT: Provide ONLY complete HTML code. Start with <!DOCTYPE html> and end with </html>. No explanations.''"

text \<open>\<open>analysis.get('raw_analysis', '')\<close> as the f-string renders it.\<close>

definition raw_analysis_text :: "pydict \<Rightarrow> pystr" where
  "raw_analysis_text a =
     (case a ''raw_analysis'' of None \<Rightarrow> [] | Some v \<Rightarrow> fmt (Some v))"

text \<open>\<open>CanvaToHTMLAgent.generate_html_css\<close>.\<close>

definition generate_html_css ::
  "('w, 'img) model \<Rightarrow> 'w world \<Rightarrow> pydict \<Rightarrow> 'img \<Rightarrow> customizations
     \<Rightarrow> (pystr + pydict) \<times> 'w world" where
  "generate_html_css m w a img c =
     (case generate_content m w
             (code_prompt (raw_analysis_text a) (customization_text c)) img of
        (Reply text, w') \<Rightarrow>
          (Inr [''html'' \<mapsto> VStr (extract_html text), ''success'' \<mapsto> VBool True], w')
      | (Raised e, w') \<Rightarrow> (Inr [''error'' \<mapsto> VStr e, ''success'' \<mapsto> VBool False], w')
      | (Escaped x, w') \<Rightarrow> (Inl x, w'))"

section \<open>The Generate button\<close>

text \<open>
  What one click on the button does, once the key and the image are there: the
  messages shown (\<open>st.error\<close>, \<open>st.success\<close>), the session state, the world,
  whether \<open>st.stop()\<close> ended the script run, and the exception that left the handler,
  if one did. \<open>st.stop()\<close> raises a \<open>BaseException\<close> that is not an \<open>Exception\<close>, so
  the handler's own \<open>except Exception\<close> does not catch it; the same clause lets through
  what the agent's methods let through. A missing key in \<open>result["html"]\<close> would be a
  \<open>KeyError\<close>, which that clause does catch.
\<close>

datatype ui = StError pystr | StSuccess pystr

record session =
  generated_html :: "pyval option"
  analysis :: "pydict option"

record 'w run =
  shown :: "ui list"
  state :: session
  world :: "'w world"
  stopped :: bool
  escaped :: "pystr option"

definition cross_mark :: pystr where
  "cross_mark = [10060]"

definition check_mark :: pystr where
  "check_mark = [9989]"

definition generate_button ::
  "('w, 'img) model \<Rightarrow> 'w world \<Rightarrow> session \<Rightarrow> 'img \<Rightarrow> customizations \<Rightarrow> 'w run" where
  "generate_button m w ss img c =
     (case analyze_design m w img (custom_instructions c) of
        (Inl x, w1) \<Rightarrow>
          \<lparr>shown = [], state = ss, world = w1, stopped = False, escaped = Some x\<rparr>
      | (Inr a, w1) \<Rightarrow>
          if \<not> truthy (a ''success'') then
            \<lparr>shown = [StError (cross_mark @ S '' Analysis Error: '' @ fmt (a ''error''))],
             state = ss, world = w1, stopped = True, escaped = None\<rparr>
          else
            (let ss1 = ss\<lparr>analysis := Some a\<rparr> in
             case generate_html_css m w1 a img c of
               (Inl x, w2) \<Rightarrow>
                 \<lparr>shown = [], state = ss1, world = w2, stopped = False, escaped = Some x\<rparr>
             | (Inr result, w2) \<Rightarrow>
                 if truthy (result ''success'') then
                   (case result ''html'' of
                      Some v \<Rightarrow>
                        \<lparr>shown = [StSuccess (check_mark @ S '' HTML/CSS generated successfully!'')],
                         state = ss1\<lparr>generated_html := Some v\<rparr>, world = w2, stopped = False,
                         escaped = None\<rparr>
                    | None \<Rightarrow>
                        \<lparr>shown = [StError (cross_mark @ S '' Error: '' @ [39] @ S ''html'' @ [39])],
                         state = ss1, world = w2, stopped = False, escaped = None\<rparr>)
                 else
                   \<lparr>shown = [StError (cross_mark @ S '' Generation Error: '' @ fmt (result ''error''))],
                    state = ss1, world = w2, stopped = False, escaped = None\<rparr>))"

section \<open>What the specification says, in its own words\<close>

text \<open>
  One instruction per present field, in the order colour scheme, font size, spacing,
  button style, animations, free text.
\<close>

definition instruction_lines :: "customizations \<Rightarrow> pystr list" where
  "instruction_lines c =
     (if color_scheme c = [] then [] else [S ''Use a '' @ color_scheme c @ S '' color scheme'']) @
     (if font_size c = [] then [] else [S ''Use '' @ font_size c @ S '' font sizes'']) @
     (if spacing c = [] then [] else [S ''Use '' @ spacing c @ S '' spacing'']) @
     (if button_style c = [] then [] else [S ''Style buttons as '' @ button_style c]) @
     (if animations c then [S ''Add smooth CSS animations and transitions''] else []) @
     (if custom_instructions c = [] then [] else [custom_instructions c])"

text \<open>How many of the six fields are present.\<close>

definition present_fields :: "customizations \<Rightarrow> nat" where
  "present_fields c =
     length (filter (\<lambda>b. b)
       [color_scheme c \<noteq> [], font_size c \<noteq> [], spacing c \<noteq> [], button_style c \<noteq> [],
        animations c, custom_instructions c \<noteq> []])"

text \<open>
  The substring that starts at the first doctype declaration and ends with the last
  closing root tag, as a slice of the text.
\<close>

definition doctype_span :: "pystr \<Rightarrow> pystr" where
  "doctype_span t = py_slice t (py_find t doctype 0) (py_rfind t closing_tag + 7)"

text \<open>
  The language marker of a fenced block: the run of non-blank characters that follows
  the opening delimiter directly, and the block's content after it.
\<close>

definition language_marker :: "pystr \<Rightarrow> pystr" where
  "language_marker body = takeWhile (\<lambda>c. \<not> is_space c) body"

definition after_language_marker :: "pystr \<Rightarrow> pystr" where
  "after_language_marker body = drop (length (language_marker body)) body"

section \<open>A failing service and sample requests\<close>

text \<open>
  A service that refuses every request, one whose call is interrupted from the
  keyboard, a fresh world and session, two requests.
\<close>

definition quota_model :: "(unit, unit) model" where
  "quota_model r prompt img = (Raised (S ''quota exceeded''), r)"

definition interrupted_model :: "(unit, unit) model" where
  "interrupted_model r prompt img = (Escaped (S ''KeyboardInterrupt''), r)"

definition world0 :: "unit world" where
  "world0 = \<lparr>remote = (), sent = []\<rparr>"

definition session0 :: session where
  "session0 = \<lparr>generated_html = None, analysis = None\<rparr>"

definition no_customizations :: customizations where
  "no_customizations =
     \<lparr>color_scheme = [], font_size = [], spacing = [], button_style = [],
      animations = False, custom_instructions = []\<rparr>"

definition dark_large_animated :: customizations where
  "dark_large_animated =
     \<lparr>color_scheme = S ''Modern Dark'', font_size = S ''large'', spacing = [],
      button_style = [], animations = True, custom_instructions = S ''Add a sticky navigation bar''\<rparr>"

section \<open>Facts about searching, slicing and trimming\<close>

lemma py_in_sublist: "py_in sub s \<longleftrightarrow> sublist sub s"
  by (induction s) (auto simp: sublist_Cons_right)

lemma find_first_None: "find_first sub s = None \<longleftrightarrow> \<not> sublist sub s"
  by (induction s) (auto simp: sublist_Cons_right)

lemma find_last_None: "find_last sub s = None \<longleftrightarrow> \<not> sublist sub s"
  by (induction s) (auto simp: sublist_Cons_right split: option.splits)

lemma prefix_shift:
  assumes "prefix sub (pre @ sub @ rest)" "pre \<noteq> []"
  shows "prefix sub (pre @ butlast sub)"
proof (cases "sub = []")
  case True
  then show ?thesis by simp
next
  case False
  then have "pre @ sub @ rest = (pre @ butlast sub) @ (last sub # rest)" by simp
  moreover have "length sub \<le> length (pre @ butlast sub)"
    using assms(2) False by (cases pre) auto
  ultimately show ?thesis
    using assms(1) by (metis prefix_length_prefix prefixI)
qed

lemma find_first_at:
  "\<not> sublist sub (pre @ butlast sub) \<Longrightarrow> find_first sub (pre @ sub @ rest) = Some (length pre)"
proof (induction pre)
  case Nil
  show ?case
  proof (cases "sub @ rest")
    case Nil
    then show ?thesis by simp
  next
    case (Cons a list)
    have "prefix sub (sub @ rest)" by simp
    then show ?thesis unfolding Cons by simp
  qed
next
  case (Cons p ps)
  have "\<not> prefix sub ((p # ps) @ sub @ rest)"
    using Cons.prems prefix_shift[of sub "p # ps" rest] by auto
  moreover have "\<not> sublist sub (ps @ butlast sub)"
    using Cons.prems by (simp add: sublist_Cons_right)
  ultimately show ?case using Cons.IH by simp
qed

lemma find_last_at:
  "\<not> sublist sub (tl sub @ rest) \<Longrightarrow> find_last sub (pre @ sub @ rest) = Some (length pre)"
proof (induction pre)
  case Nil
  then obtain a sub' where sub: "sub = a # sub'" by (cases sub) auto
  with Nil have "find_last sub (sub' @ rest) = None" by (simp add: find_last_None)
  then show ?case using sub by simp
next
  case (Cons p ps)
  then show ?case by simp
qed

lemma py_find_0:
  "py_find s sub 0 = (case find_first sub s of None \<Rightarrow> - 1 | Some i \<Rightarrow> int i)"
  by (simp add: py_find_def split: option.splits)

lemma py_find_from:
  "k \<le> length s \<Longrightarrow>
   py_find s sub (int k) = (case find_first sub (drop k s) of None \<Rightarrow> - 1 | Some i \<Rightarrow> int (k + i))"
  by (simp add: py_find_def split: option.splits)

lemma py_slice_mid:
  "py_slice (pre @ body @ rest) (int (length pre)) (int (length pre + length body)) = body"
  by (simp add: py_slice_def clamp_index_def)

lemma py_slice_to_minus_one:
  "k \<le> length s \<Longrightarrow> py_slice s (int k) (- 1) = butlast (drop k s)"
  by (simp add: py_slice_def clamp_index_def butlast_conv_take nat_diff_distrib' max_def)

lemma marker_closed:
  assumes t: "t = pre @ m @ body @ fence @ post"
    and first: "\<not> sublist m (pre @ butlast m)"
    and nxt: "\<not> sublist fence (body @ butlast fence)"
  shows "py_slice t (py_find t m 0 + int (length m))
           (py_find t fence (py_find t m 0 + int (length m))) = body"
proof -
  have start: "py_find t m 0 = int (length pre)"
    using find_first_at[OF first, of "body @ fence @ post"] by (simp add: py_find_0 t)
  have le: "length pre + length m \<le> length t" by (simp add: t)
  have rem: "drop (length pre + length m) t = body @ fence @ post" by (simp add: t)
  have "py_find t fence (int (length pre + length m)) = int (length pre + length m + length body)"
    unfolding py_find_from[OF le] rem using find_first_at[OF nxt, of post] by simp
  moreover have "py_slice t (int (length pre + length m)) (int (length pre + length m + length body)) = body"
    using py_slice_mid[of "pre @ m" body "fence @ post"] by (simp add: t)
  ultimately show ?thesis by (simp add: start)
qed

lemma marker_unclosed:
  assumes t: "t = pre @ m @ rest"
    and first: "\<not> sublist m (pre @ butlast m)"
    and nxt: "\<not> sublist fence rest"
  shows "py_slice t (py_find t m 0 + int (length m))
           (py_find t fence (py_find t m 0 + int (length m))) = butlast rest"
proof -
  have start: "py_find t m 0 = int (length pre)"
    using find_first_at[OF first, of rest] by (simp add: py_find_0 t)
  have le: "length pre + length m \<le> length t" by (simp add: t)
  have rem: "drop (length pre + length m) t = rest" by (simp add: t)
  have "py_find t fence (int (length pre + length m)) = - 1"
    unfolding py_find_from[OF le] rem using nxt by (simp add: find_first_None[symmetric])
  moreover have "py_slice t (int (length pre + length m)) (- 1) = butlast rest"
    using py_slice_to_minus_one[OF le] rem by simp
  ultimately show ?thesis by (simp add: start)
qed

lemma length_fence_html: "length fence_html = 7"
  by (simp add: fence_html_def S_def)
lemma length_fence: "length fence = 3"
  by (simp add: fence_def S_def)
lemma length_doctype: "length doctype = 9"
  by (simp add: doctype_def S_def)
lemma length_closing_tag: "length closing_tag = 7"
  by (simp add: closing_tag_def S_def)

lemma py_slice_nonneg:
  "a \<le> length s \<Longrightarrow> b \<le> length s \<Longrightarrow> py_slice s (int a) (int b) = drop a (take b s)"
  by (simp add: py_slice_def clamp_index_def drop_take)

lemma py_strip_no_space:
  "\<forall>c \<in> set s. \<not> is_space c \<Longrightarrow> py_strip s = s"
proof -
  assume a: "\<forall>c \<in> set s. \<not> is_space c"
  then have "dropWhile is_space s = s" by (cases s) auto
  moreover have "dropWhile is_space (rev s) = rev s"
    using a by (cases "s = []") (simp_all add: dropWhile_eq_self_iff hd_rev)
  ultimately show ?thesis by (simp add: py_strip_def)
qed





lemma no_fence_html: "\<not> sublist fence t \<Longrightarrow> \<not> sublist fence_html t"
proof
  assume "\<not> sublist fence t" "sublist fence_html t"
  moreover have "sublist fence fence_html" by (simp add: fence_def fence_html_def S_def)
  ultimately show False using sublist_order.order.trans by blast
qed

lemma extract_html_doctype:
  assumes nf: "\<not> sublist fence t"
    and t1: "t = pre @ doctype @ rest"
    and first: "\<not> sublist doctype (pre @ butlast doctype)"
    and t2: "t = pre2 @ closing_tag @ post"
    and lst: "\<not> sublist closing_tag (tl closing_tag @ post)"
  shows "extract_html t =
           (if length pre < length pre2 + 7 then py_strip (drop (length pre) (pre2 @ closing_tag))
            else py_strip t)"
proof -
  have in_dt: "py_in doctype t" by (simp add: py_in_sublist t1)
  have start: "py_find t doctype 0 = int (length pre)"
    using find_first_at[OF first, of rest] by (simp add: py_find_0 t1)
  have "find_last closing_tag t = Some (length pre2)"
    unfolding t2 using lst by (rule find_last_at)
  then have fin: "py_rfind t closing_tag + 7 = int (length pre2 + 7)"
    by (simp add: py_rfind_def)
  have le1: "length pre \<le> length t" by (simp add: t1)
  have le2: "length pre2 + 7 \<le> length t" by (simp add: t2 length_closing_tag)
  have "take (length pre2 + 7) t = pre2 @ closing_tag" by (simp add: t2 length_closing_tag)
  then have sl: "py_slice t (int (length pre)) (int (length pre2 + 7)) = drop (length pre) (pre2 @ closing_tag)"
    using py_slice_nonneg[OF le1 le2] by simp
  show ?thesis
    using nf no_fence_html[OF nf] in_dt sl
    unfolding extract_html_def start fin
    by (simp add: py_in_sublist)
qed

lemma extract_html_truncated:
  assumes nf: "\<not> sublist fence t"
    and t1: "t = pre @ doctype @ rest"
    and first: "\<not> sublist doctype (pre @ butlast doctype)"
    and nc: "\<not> sublist closing_tag t"
  shows "extract_html t = (if 6 \<le> length pre then py_strip t else take (6 - length pre) doctype)"
    and "length pre < 6 \<Longrightarrow> extract_html t = py_slice t (int (length pre)) 6"
proof -
  have in_dt: "py_in doctype t" by (simp add: py_in_sublist t1)
  have start: "py_find t doctype 0 = int (length pre)"
    using find_first_at[OF first, of rest] by (simp add: py_find_0 t1)
  have fin: "py_rfind t closing_tag + 7 = 6"
    using nc by (simp add: py_rfind_def find_last_None[symmetric])
  have ex: "extract_html t = (if 6 \<le> length pre then py_strip t else py_strip (py_slice t (int (length pre)) 6))"
    using nf no_fence_html[OF nf] in_dt
    unfolding extract_html_def start fin
    by (simp add: py_in_sublist)
  have sl: "py_slice t (int (length pre)) 6 = take (6 - length pre) doctype" if "length pre < 6"
  proof -
    have le1: "length pre \<le> length t" by (simp add: t1)
    have le2: "6 \<le> length t" by (simp add: t1 length_doctype)
    have "py_slice t (int (length pre)) (int 6) = drop (length pre) (take 6 t)"
      using py_slice_nonneg[OF le1 le2] .
    also have "\<dots> = take (6 - length pre) (drop (length pre) t)"
      by (simp only: drop_take)
    also have "\<dots> = take (6 - length pre) (doctype @ rest)"
      by (simp add: t1)
    also have "\<dots> = take (6 - length pre) doctype"
      by (simp add: length_doctype)
    finally show ?thesis by simp
  qed
  have ns: "\<forall>c \<in> set doctype. \<not> is_space c"
    by (simp add: doctype_def S_def is_space_def)
  have "py_strip (take k doctype) = take k doctype" for k
    using ns by (intro py_strip_no_space) (meson in_set_takeD)
  then show "extract_html t = (if 6 \<le> length pre then py_strip t else take (6 - length pre) doctype)"
    using ex sl by auto
  then show "length pre < 6 \<Longrightarrow> extract_html t = py_slice t (int (length pre)) 6"
    using sl by simp
qed

lemma extract_html_html_fence:
  assumes "t = pre @ fence_html @ body @ fence @ post"
    and "\<not> sublist fence_html (pre @ butlast fence_html)"
    and "\<not> sublist fence (body @ butlast fence)"
  shows "extract_html t = py_strip body"
proof -
  have "py_in fence_html t"
    by (simp add: py_in_sublist assms(1))
  then show ?thesis
    using marker_closed[OF assms] by (simp add: extract_html_def length_fence_html)
qed

lemma extract_html_generic_fence:
  assumes "\<not> sublist fence_html t"
    and "t = pre @ fence @ body @ fence @ post"
    and "\<not> sublist fence (pre @ butlast fence)"
    and "\<not> sublist fence (body @ butlast fence)"
  shows "extract_html t = py_strip body"
proof -
  have "py_in fence t"
    by (simp add: py_in_sublist assms(2))
  then show ?thesis
    using marker_closed[OF assms(2-4)] assms(1)
    by (simp add: extract_html_def length_fence py_in_sublist)
qed

lemma extract_html_html_unclosed:
  assumes "t = pre @ fence_html @ rest"
    and "\<not> sublist fence_html (pre @ butlast fence_html)"
    and "\<not> sublist fence rest"
  shows "extract_html t = py_strip (butlast rest)"
proof -
  have "py_in fence_html t"
    by (simp add: py_in_sublist assms(1))
  moreover have "py_slice t (py_find t fence_html 0 + 7)
                   (py_find t fence (py_find t fence_html 0 + 7)) = butlast rest"
    using marker_unclosed[OF assms] by (simp add: length_fence_html)
  ultimately show ?thesis
    by (simp add: extract_html_def)
qed

lemma extract_html_generic_unclosed:
  assumes "\<not> sublist fence_html t"
    and "t = pre @ fence @ rest"
    and "\<not> sublist fence (pre @ butlast fence)"
    and "\<not> sublist fence rest"
  shows "extract_html t = py_strip (butlast rest)"
proof -
  have "sublist fence t"
    by (simp add: assms(2))
  then have "py_in fence t" "\<not> py_in fence_html t"
    using assms(1) by (simp_all add: py_in_sublist)
  moreover have "py_slice t (py_find t fence 0 + 3)
                   (py_find t fence (py_find t fence 0 + 3)) = butlast rest"
    using marker_unclosed[OF assms(2-4)] by (simp add: length_fence)
  ultimately show ?thesis
    by (simp add: extract_html_def)
qed


section \<open>Facts about the agent\<close>

lemma custom_css_lines: "custom_css c = instruction_lines c"
  by (simp add: custom_css_def instruction_lines_def Let_def)

lemma instruction_lines_count: "length (instruction_lines c) = present_fields c"
  by (simp add: instruction_lines_def present_fields_def)

lemma instruction_lines_empty:
  "instruction_lines c = [] \<longleftrightarrow>
     color_scheme c = [] \<and> font_size c = [] \<and> spacing c = [] \<and> button_style c = [] \<and>
     \<not> animations c \<and> custom_instructions c = []"
  by (simp add: instruction_lines_def)

text \<open>Where the customization text sits in the prompt: under its heading, before the requirements.\<close>

lemma code_prompt_section:
  "\<exists>post. code_prompt a x =
     S ''Generate complete HTML and CSS code based on this analysis:\<newline>\<newline>'' @
     S ''ANALYSIS:\<newline>'' @ a @
     S ''\<newline>\<newline>CUSTOMIZATIONS:\<newline>- '' @ x @
     S ''\<newline>\<newline>REQUIREMENTS:\<newline>'' @ post"
  by (simp add: code_prompt_def)

lemma generate_html_css_sent:
  "sent (snd (generate_html_css m w a img c)) =
     sent w @ [code_prompt (raw_analysis_text a) (customization_text c)]"
  by (simp add: generate_html_css_def generate_content_def split: prod.splits outcome.splits)

lemma analyze_design_sent:
  "sent (snd (analyze_design m w img ci)) = sent w @ [analysis_prompt ci]"
  by (simp add: analyze_design_def generate_content_def split: prod.splits outcome.splits)

lemma analyze_design_failure:
  assumes "m (remote w) (analysis_prompt ci) img = (Raised msg, r1)"
  shows "analyze_design m w img ci =
           (Inr [''error'' \<mapsto> VStr msg, ''success'' \<mapsto> VBool False],
            \<lparr>remote = r1, sent = sent w @ [analysis_prompt ci]\<rparr>)"
  using assms by (simp add: analyze_design_def generate_content_def)

lemma generate_html_css_failure:
  assumes "m (remote w) (code_prompt (raw_analysis_text a) (customization_text c)) img = (Raised msg, r1)"
  shows "generate_html_css m w a img c =
           (Inr [''error'' \<mapsto> VStr msg, ''success'' \<mapsto> VBool False],
            \<lparr>remote = r1, sent = sent w @ [code_prompt (raw_analysis_text a) (customization_text c)]\<rparr>)"
  using assms by (simp add: generate_html_css_def generate_content_def)

lemma analyze_design_escapes:
  assumes "m (remote w) (analysis_prompt ci) img = (Escaped x, r1)"
  shows "analyze_design m w img ci =
           (Inl x, \<lparr>remote = r1, sent = sent w @ [analysis_prompt ci]\<rparr>)"
  using assms by (simp add: analyze_design_def generate_content_def)

lemma generate_html_css_escapes:
  assumes "m (remote w) (code_prompt (raw_analysis_text a) (customization_text c)) img = (Escaped x, r1)"
  shows "generate_html_css m w a img c =
           (Inl x, \<lparr>remote = r1, sent = sent w @ [code_prompt (raw_analysis_text a) (customization_text c)]\<rparr>)"
  using assms by (simp add: generate_html_css_def generate_content_def)

lemma analyze_design_cases:
  "(\<exists>text w'. analyze_design m w img ci =
        (Inr [''raw_analysis'' \<mapsto> VStr text, ''success'' \<mapsto> VBool True], w')
        \<and> fst (m (remote w) (analysis_prompt ci) img) = Reply text)
   \<or> (\<exists>e w'. analyze_design m w img ci =
        (Inr [''error'' \<mapsto> VStr e, ''success'' \<mapsto> VBool False], w')
        \<and> fst (m (remote w) (analysis_prompt ci) img) = Raised e)
   \<or> (\<exists>x w'. analyze_design m w img ci = (Inl x, w')
        \<and> fst (m (remote w) (analysis_prompt ci) img) = Escaped x)"
  by (auto simp: analyze_design_def generate_content_def split: prod.splits outcome.splits)

lemma generate_html_css_cases:
  "(\<exists>text w'. generate_html_css m w a img c =
        (Inr [''html'' \<mapsto> VStr (extract_html text), ''success'' \<mapsto> VBool True], w')
        \<and> fst (m (remote w) (code_prompt (raw_analysis_text a) (customization_text c)) img)
            = Reply text)
   \<or> (\<exists>e w'. generate_html_css m w a img c =
        (Inr [''error'' \<mapsto> VStr e, ''success'' \<mapsto> VBool False], w')
        \<and> fst (m (remote w) (code_prompt (raw_analysis_text a) (customization_text c)) img)
            = Raised e)
   \<or> (\<exists>x w'. generate_html_css m w a img c = (Inl x, w')
        \<and> fst (m (remote w) (code_prompt (raw_analysis_text a) (customization_text c)) img)
            = Escaped x)"
  by (auto simp: generate_html_css_def generate_content_def split: prod.splits outcome.splits)

lemma analyze_design_keys:
  assumes "fst (analyze_design m w img ci) = Inr d"
  shows "dom d = {''raw_analysis'', ''success''} \<and> d ''success'' = Some (VBool True)
       \<or> dom d = {''error'', ''success''} \<and> d ''success'' = Some (VBool False)"
  using analyze_design_cases[of m w img ci] assms by (auto split: if_splits)

lemma generate_html_css_keys:
  assumes "fst (generate_html_css m w a img c) = Inr d"
  shows "dom d = {''html'', ''success''} \<and> d ''success'' = Some (VBool True)
       \<or> dom d = {''error'', ''success''} \<and> d ''success'' = Some (VBool False)"
  using generate_html_css_cases[of m w a img c] assms by (auto split: if_splits)

text \<open>A method lets an exception through only when the service call ended with one outside \<open>Exception\<close>.\<close>

lemma analyze_design_returns:
  "(\<exists>d. fst (analyze_design m w img ci) = Inr d)
     \<longleftrightarrow> (\<forall>x. fst (m (remote w) (analysis_prompt ci) img) \<noteq> Escaped x)"
  using analyze_design_cases[of m w img ci] by auto

lemma generate_html_css_returns:
  "(\<exists>d. fst (generate_html_css m w a img c) = Inr d)
     \<longleftrightarrow> (\<forall>x. fst (m (remote w) (code_prompt (raw_analysis_text a) (customization_text c)) img)
                \<noteq> Escaped x)"
  using generate_html_css_cases[of m w a img c] by auto

lemma generate_button_analysis_failure:
  assumes "analyze_design m w img (custom_instructions c) = (Inr a, w1)"
    and "\<not> truthy (a ''success'')"
  shows "generate_button m w ss img c =
           \<lparr>shown = [StError (cross_mark @ S '' Analysis Error: '' @ fmt (a ''error''))],
            state = ss, world = w1, stopped = True, escaped = None\<rparr>"
  using assms by (simp add: generate_button_def)

text \<open>After a successful analysis the button does call the synthesis: two requests are sent.\<close>

lemma generate_button_analysis_success:
  assumes "analyze_design m w img (custom_instructions c) = (Inr a, w1)"
    and "truthy (a ''success'')"
  shows "sent (world (generate_button m w ss img c)) =
           sent w @ [analysis_prompt (custom_instructions c),
                     code_prompt (raw_analysis_text a) (customization_text c)]"
proof -
  have w1: "sent w1 = sent w @ [analysis_prompt (custom_instructions c)]"
    using analyze_design_sent[of m w img "custom_instructions c"] assms(1) by simp
  obtain result w2 where g: "generate_html_css m w1 a img c = (result, w2)"
    by (cases "generate_html_css m w1 a img c")
  then have "sent w2 = sent w1 @ [code_prompt (raw_analysis_text a) (customization_text c)]"
    using generate_html_css_sent[of m w1 a img c] by simp
  moreover have "world (generate_button m w ss img c) = w2"
    using assms g by (simp add: generate_button_def Let_def split: option.splits sum.splits)
  ultimately show ?thesis
    by (simp add: w1)
qed

section \<open>Evaluating the definitions on concrete texts\<close>

lemmas literal_defs = S_def fence_def fence_html_def doctype_def closing_tag_def sublist_code

lemmas strip_defs = py_strip_def is_space_def

section \<open>The customization section of the synthesis prompt\<close>

text \<open>
  C1. When at least one customization field is set, the list behind the CUSTOMIZATIONS
  section holds exactly one instruction per present field (non-empty string, or
  animations switched on), in the order colour scheme, font size, spacing, button style,
  animations, free text, each phrased as the specification gives it and the free text
  verbatim; an unset field contributes nothing. The section text is these instructions
  joined by a newline and a dash, and the prompt \<open>generate_html_css\<close> sends has it
  right after the heading \<open>CUSTOMIZATIONS:\<close> and a first dash, between the analysis and
  the heading \<open>REQUIREMENTS:\<close>.
\<close>

theorem customization_lines_in_order:
  assumes "color_scheme c \<noteq> [] \<or> font_size c \<noteq> [] \<or> spacing c \<noteq> [] \<or> button_style c \<noteq> []
           \<or> animations c \<or> custom_instructions c \<noteq> []"
  shows "custom_css c = instruction_lines c
       \<and> length (custom_css c) = present_fields c
       \<and> customization_text c = py_join (S ''\<newline>- '') (instruction_lines c)
       \<and> sent (snd (generate_html_css m w a img c)) =
           sent w @ [code_prompt (raw_analysis_text a)
                       (py_join (S ''\<newline>- '') (instruction_lines c))]
       \<and> (\<exists>post. sent (snd (generate_html_css m w a img c)) =
             sent w @
             [S ''Generate complete HTML and CSS code based on this analysis:\<newline>\<newline>'' @
              S ''ANALYSIS:\<newline>'' @ raw_analysis_text a @
              S ''\<newline>\<newline>CUSTOMIZATIONS:\<newline>- '' @
              py_join (S ''\<newline>- '') (instruction_lines c) @
              S ''\<newline>\<newline>REQUIREMENTS:\<newline>'' @ post])"
proof -
  have ne: "instruction_lines c \<noteq> []"
    using assms by (auto simp: instruction_lines_empty)
  then have ct: "customization_text c = py_join (S ''\<newline>- '') (instruction_lines c)"
    by (simp add: customization_text_def custom_css_lines)
  have snt: "sent (snd (generate_html_css m w a img c)) =
           sent w @ [code_prompt (raw_analysis_text a)
                       (py_join (S ''\<newline>- '') (instruction_lines c))]"
    by (simp add: generate_html_css_sent ct)
  obtain post where "code_prompt (raw_analysis_text a) (py_join (S ''\<newline>- '') (instruction_lines c)) =
     S ''Generate complete HTML and CSS code based on this analysis:\<newline>\<newline>'' @
     S ''ANALYSIS:\<newline>'' @ raw_analysis_text a @
     S ''\<newline>\<newline>CUSTOMIZATIONS:\<newline>- '' @
     py_join (S ''\<newline>- '') (instruction_lines c) @
     S ''\<newline>\<newline>REQUIREMENTS:\<newline>'' @ post"
    using code_prompt_section by blast
  then have sec: "\<exists>post. sent (snd (generate_html_css m w a img c)) =
             sent w @
             [S ''Generate complete HTML and CSS code based on this analysis:\<newline>\<newline>'' @
              S ''ANALYSIS:\<newline>'' @ raw_analysis_text a @
              S ''\<newline>\<newline>CUSTOMIZATIONS:\<newline>- '' @
              py_join (S ''\<newline>- '') (instruction_lines c) @
              S ''\<newline>\<newline>REQUIREMENTS:\<newline>'' @ post]"
    using snt by auto
  show ?thesis
    using snt sec by (simp add: custom_css_lines instruction_lines_count ct)
qed

text \<open>
  A request with a colour scheme, a font size, animations and a free text, and neither
  spacing nor button style: four lines, in that order, under the heading in the prompt.
\<close>

theorem customization_lines_in_order_witness:
  "custom_css dark_large_animated =
     [S ''Use a Modern Dark color scheme'', S ''Use large font sizes'',
      S ''Add smooth CSS animations and transitions'', S ''Add a sticky navigation bar'']
   \<and> customization_text dark_large_animated =
       S ''Use a Modern Dark color scheme\<newline>- Use large font sizes\<newline>- Add smooth CSS animations and transitions\<newline>- Add a sticky navigation bar''
   \<and> (\<exists>post. sent (snd (generate_html_css quota_model world0 Map.empty () dark_large_animated)) =
         [S ''Generate complete HTML and CSS code based on this analysis:\<newline>\<newline>'' @
          S ''ANALYSIS:\<newline>'' @
          S ''\<newline>\<newline>CUSTOMIZATIONS:\<newline>- '' @
          S ''Use a Modern Dark color scheme\<newline>- Use large font sizes\<newline>- Add smooth CSS animations and transitions\<newline>- Add a sticky navigation bar'' @
          S ''\<newline>\<newline>REQUIREMENTS:\<newline>'' @ post])"
proof -
  have h: "color_scheme dark_large_animated \<noteq> [] \<or> font_size dark_large_animated \<noteq> []
         \<or> spacing dark_large_animated \<noteq> [] \<or> button_style dark_large_animated \<noteq> []
         \<or> animations dark_large_animated \<or> custom_instructions dark_large_animated \<noteq> []"
    by (simp add: dark_large_animated_def)
  have l: "instruction_lines dark_large_animated =
     [S ''Use a Modern Dark color scheme'', S ''Use large font sizes'',
      S ''Add smooth CSS animations and transitions'', S ''Add a sticky navigation bar'']"
    by (simp add: instruction_lines_def dark_large_animated_def S_def)
  have j: "py_join (S ''\<newline>- '') [S ''Use a Modern Dark color scheme'', S ''Use large font sizes'',
      S ''Add smooth CSS animations and transitions'', S ''Add a sticky navigation bar''] =
      S ''Use a Modern Dark color scheme\<newline>- Use large font sizes\<newline>- Add smooth CSS animations and transitions\<newline>- Add a sticky navigation bar''"
    by (simp add: S_def)
  have r: "raw_analysis_text Map.empty = []"
    by (simp add: raw_analysis_text_def)
  have s: "sent world0 = []"
    by (simp add: world0_def)
  note T = customization_lines_in_order[OF h, of quota_model world0 Map.empty "()",
      unfolded l j r s append_Nil]
  show ?thesis
    using T by blast
qed

text \<open>
  C2. When every string field is empty and animations is off, the customization text is
  exactly \<open>Follow original design\<close>, and the prompt sent has exactly that text as its
  customization section, after the heading \<open>CUSTOMIZATIONS:\<close> and the dash and before
  the heading \<open>REQUIREMENTS:\<close>.
\<close>

theorem empty_customization_follows_original:
  assumes "color_scheme c = []" "font_size c = []" "spacing c = []" "button_style c = []"
    "\<not> animations c" "custom_instructions c = []"
  shows "custom_css c = []
       \<and> customization_text c = S ''Follow original design''
       \<and> sent (snd (generate_html_css m w a img c)) =
           sent w @ [code_prompt (raw_analysis_text a) (S ''Follow original design'')]
       \<and> (\<exists>post. sent (snd (generate_html_css m w a img c)) =
             sent w @
             [S ''Generate complete HTML and CSS code based on this analysis:\<newline>\<newline>'' @
              S ''ANALYSIS:\<newline>'' @ raw_analysis_text a @
              S ''\<newline>\<newline>CUSTOMIZATIONS:\<newline>- '' @
              S ''Follow original design'' @
              S ''\<newline>\<newline>REQUIREMENTS:\<newline>'' @ post])"
proof -
  have css: "custom_css c = []"
    using assms by (simp add: custom_css_lines instruction_lines_empty)
  then have ct: "customization_text c = S ''Follow original design''"
    by (simp add: customization_text_def)
  have snt: "sent (snd (generate_html_css m w a img c)) =
           sent w @ [code_prompt (raw_analysis_text a) (S ''Follow original design'')]"
    by (simp add: generate_html_css_sent ct)
  obtain post where "code_prompt (raw_analysis_text a) (S ''Follow original design'') =
     S ''Generate complete HTML and CSS code based on this analysis:\<newline>\<newline>'' @
     S ''ANALYSIS:\<newline>'' @ raw_analysis_text a @
     S ''\<newline>\<newline>CUSTOMIZATIONS:\<newline>- '' @
     S ''Follow original design'' @
     S ''\<newline>\<newline>REQUIREMENTS:\<newline>'' @ post"
    using code_prompt_section by blast
  then have sec: "\<exists>post. sent (snd (generate_html_css m w a img c)) =
             sent w @
             [S ''Generate complete HTML and CSS code based on this analysis:\<newline>\<newline>'' @
              S ''ANALYSIS:\<newline>'' @ raw_analysis_text a @
              S ''\<newline>\<newline>CUSTOMIZATIONS:\<newline>- '' @
              S ''Follow original design'' @
              S ''\<newline>\<newline>REQUIREMENTS:\<newline>'' @ post]"
    using snt by auto
  show ?thesis
    using css ct snt sec by simp
qed

theorem empty_customization_follows_original_witness:
  "customization_text no_customizations = S ''Follow original design''
   \<and> sent (snd (generate_html_css quota_model world0 Map.empty () no_customizations)) =
       [code_prompt [] (S ''Follow original design'')]
   \<and> (\<exists>post. sent (snd (generate_html_css quota_model world0 Map.empty () no_customizations)) =
         [S ''Generate complete HTML and CSS code based on this analysis:\<newline>\<newline>'' @
          S ''ANALYSIS:\<newline>'' @
          S ''\<newline>\<newline>CUSTOMIZATIONS:\<newline>- '' @
          S ''Follow original design'' @
          S ''\<newline>\<newline>REQUIREMENTS:\<newline>'' @ post])"
proof -
  have r: "raw_analysis_text Map.empty = []"
    by (simp add: raw_analysis_text_def)
  have s: "sent world0 = []"
    by (simp add: world0_def)
  have h: "color_scheme no_customizations = []" "font_size no_customizations = []"
    "spacing no_customizations = []" "button_style no_customizations = []"
    "\<not> animations no_customizations" "custom_instructions no_customizations = []"
    by (simp_all add: no_customizations_def)
  note T = empty_customization_follows_original[OF h, of quota_model world0 Map.empty "()",
      unfolded r s append_Nil]
  show ?thesis
    using T by blast
qed

section \<open>Extraction: the fenced block tagged as HTML\<close>

text \<open>
  C3. When the text has a block opened by the fence tagged \<open>html\<close> (the first such
  opening comes right after \<open>pre\<close>) and \<open>body\<close> runs up to the next closing fence, the
  result is \<open>body\<close>, trimmed. Nothing is asked of \<open>pre\<close> and \<open>post\<close>: they may hold a
  doctype declaration, closing root tags or other fences, so this rule wins over all
  the others.
\<close>

theorem html_fence_has_priority:
  assumes "t = pre @ fence_html @ body @ fence @ post"
    and "\<not> sublist fence_html (pre @ butlast fence_html)"
    and "\<not> sublist fence (body @ butlast fence)"
  shows "extract_html t = py_strip body"
  using assms by (rule extract_html_html_fence)

text \<open>
  A reply whose prose mentions a doctype before the fenced block and a closing root tag
  after it: the block's content comes back.
\<close>

theorem html_fence_has_priority_witness:
  "sublist doctype (S ''Start with <!DOCTYPE html> as asked:\<newline>'')
   \<and> extract_html (S ''Start with <!DOCTYPE html> as asked:\<newline>'' @ fence_html @
         S ''\<newline><p>hi</p>\<newline>'' @ fence @ S '' Done, ends with </html>.'')
       = S ''<p>hi</p>''"
proof -
  have h1: "\<not> sublist fence_html (S ''Start with <!DOCTYPE html> as asked:\<newline>'' @ butlast fence_html)"
    by (simp add: literal_defs)
  have h2: "\<not> sublist fence (S ''\<newline><p>hi</p>\<newline>'' @ butlast fence)"
    by (simp add: literal_defs)
  have e: "py_strip (S ''\<newline><p>hi</p>\<newline>'') = S ''<p>hi</p>''"
    by (simp add: literal_defs strip_defs)
  have d: "sublist doctype (S ''Start with <!DOCTYPE html> as asked:\<newline>'')"
    by (simp add: literal_defs)
  show ?thesis
    using html_fence_has_priority[OF refl h1 h2, of "S '' Done, ends with </html>.''"] e d by simp
qed

section \<open>Extraction: the doctype declaration\<close>

text \<open>
  C4, as the code has it. In a text without fences, let the first doctype declaration
  start right after \<open>pre\<close> and the last closing root tag right after \<open>pre2\<close>. If that
  closing tag ends after the start of the doctype, the result is the text from the
  doctype to the end of that last closing tag, trimmed; if every closing root tag lies
  before the doctype, the guard \<open>end > start\<close> fails and the result is the whole text,
  trimmed.
\<close>

theorem doctype_span_to_last_closing_tag:
  assumes "\<not> sublist fence t"
    and "t = pre @ doctype @ rest"
    and "\<not> sublist doctype (pre @ butlast doctype)"
    and "t = pre2 @ closing_tag @ post"
    and "\<not> sublist closing_tag (tl closing_tag @ post)"
  shows "extract_html t =
           (if length pre < length pre2 + 7 then py_strip (drop (length pre) (pre2 @ closing_tag))
            else py_strip t)"
  using assms by (rule extract_html_doctype)

text \<open>
  Two closing root tags, the first inside a comment, the second at the end of the
  document, and prose around the document: the span ends at the second.
\<close>

theorem doctype_span_to_last_closing_tag_witness:
  "extract_html (S ''Sure! <!DOCTYPE html><!-- not </html> yet --><html></html> Enjoy.'')
     = S ''<!DOCTYPE html><!-- not </html> yet --><html></html>''"
proof -
  let ?t = "S ''Sure! <!DOCTYPE html><!-- not </html> yet --><html></html> Enjoy.''"
  have h0: "\<not> sublist fence ?t"
    by (simp add: literal_defs)
  have h1: "?t = S ''Sure! '' @ doctype @ S '' html><!-- not </html> yet --><html></html> Enjoy.''"
    by (simp add: literal_defs)
  have h2: "\<not> sublist doctype (S ''Sure! '' @ butlast doctype)"
    by (simp add: literal_defs)
  have h3: "?t = S ''Sure! <!DOCTYPE html><!-- not </html> yet --><html>'' @ closing_tag @ S '' Enjoy.''"
    by (simp add: literal_defs)
  have h4: "\<not> sublist closing_tag (tl closing_tag @ S '' Enjoy.'')"
    by (simp add: literal_defs)
  have e: "(if length (S ''Sure! '') < length (S ''Sure! <!DOCTYPE html><!-- not </html> yet --><html>'') + 7
            then py_strip (drop (length (S ''Sure! ''))
                   (S ''Sure! <!DOCTYPE html><!-- not </html> yet --><html>'' @ closing_tag))
            else py_strip ?t)
           = S ''<!DOCTYPE html><!-- not </html> yet --><html></html>''"
    by (simp add: literal_defs strip_defs)
  show ?thesis
    using doctype_span_to_last_closing_tag[OF h0 h1 h2 h3 h4] e by simp
qed

text \<open>
  A text without fences that has a doctype declaration and a closing root tag, the tag
  first: the result is the whole text. It does not start at the doctype, and it is not
  the span from the doctype to the last closing tag.
\<close>

theorem closing_tag_before_doctype_falls_back:
  "\<not> sublist fence (closing_tag @ doctype @ S '' html>'')
   \<and> sublist doctype (closing_tag @ doctype @ S '' html>'')
   \<and> sublist closing_tag (closing_tag @ doctype @ S '' html>'')
   \<and> extract_html (closing_tag @ doctype @ S '' html>'') = closing_tag @ doctype @ S '' html>''
   \<and> \<not> prefix doctype (extract_html (closing_tag @ doctype @ S '' html>''))
   \<and> extract_html (closing_tag @ doctype @ S '' html>'')
       \<noteq> py_strip (doctype_span (closing_tag @ doctype @ S '' html>''))"
proof -
  let ?t = "closing_tag @ doctype @ S '' html>''"
  have h0: "\<not> sublist fence ?t"
    by (simp add: literal_defs)
  have h2: "\<not> sublist doctype (closing_tag @ butlast doctype)"
    by (simp add: literal_defs)
  have h4: "\<not> sublist closing_tag (tl closing_tag @ doctype @ S '' html>'')"
    by (simp add: literal_defs)
  have "extract_html ?t =
          (if length closing_tag < length ([]::pystr) + 7
           then py_strip (drop (length closing_tag) ([] @ closing_tag)) else py_strip ?t)"
    using extract_html_doctype[OF h0 refl h2 _ h4, of "[]"] by simp
  then have e: "extract_html ?t = py_strip ?t"
    by (simp add: length_closing_tag)
  have s: "py_strip ?t = ?t"
    by (simp add: literal_defs strip_defs)
  have f: "py_find ?t doctype 0 = 7"
    using find_first_at[OF h2, of "S '' html>''"] by (simp add: py_find_0 length_closing_tag)
  have r: "py_rfind ?t closing_tag = 0"
    using find_last_at[OF h4, of "[]"] by (simp add: py_rfind_def)
  have "doctype_span ?t = []"
    by (simp add: doctype_span_def f r py_slice_def clamp_index_def)
  then have d: "py_strip (doctype_span ?t) = []"
    by (simp add: py_strip_def)
  have ne: "?t \<noteq> []"
    by (simp add: literal_defs)
  have np: "\<not> prefix doctype ?t"
    by (simp add: literal_defs)
  show ?thesis
    using h0 e s d ne np by simp
qed

section \<open>Extraction: the generic fenced block\<close>

text \<open>
  C5, as the code has it. When no fence is tagged \<open>html\<close>, the first fence comes right
  after \<open>pre\<close> and \<open>body\<close> runs from the end of its three backquotes up to the next
  fence, the result is \<open>body\<close>, trimmed. A language marker written after the opening
  backquotes is part of \<open>body\<close> and stays in the result.
\<close>

theorem generic_fence_content:
  assumes "\<not> sublist fence_html t"
    and "t = pre @ fence @ body @ fence @ post"
    and "\<not> sublist fence (pre @ butlast fence)"
    and "\<not> sublist fence (body @ butlast fence)"
  shows "extract_html t = py_strip body"
  using assms by (rule extract_html_generic_fence)

theorem generic_fence_content_witness:
  "extract_html (S ''Here:\<newline>'' @ fence @ S ''css\<newline>body{}\<newline>'' @ fence @ S '' ok'')
     = S ''css\<newline>body{}''"
proof -
  have h0: "\<not> sublist fence_html (S ''Here:\<newline>'' @ fence @ S ''css\<newline>body{}\<newline>'' @ fence @ S '' ok'')"
    by (simp add: literal_defs)
  have h1: "\<not> sublist fence (S ''Here:\<newline>'' @ butlast fence)"
    by (simp add: literal_defs)
  have h2: "\<not> sublist fence (S ''css\<newline>body{}\<newline>'' @ butlast fence)"
    by (simp add: literal_defs)
  have e: "py_strip (S ''css\<newline>body{}\<newline>'') = S ''css\<newline>body{}''"
    by (simp add: literal_defs strip_defs)
  show ?thesis
    using generic_fence_content[OF h0 refl h1 h2] e by simp
qed

text \<open>
  A block opened with the language marker \<open>css\<close>: the result starts with the marker,
  and is not the block's content after the marker.
\<close>

theorem generic_fence_keeps_language_marker:
  "\<not> sublist fence_html (fence @ S ''css\<newline>body{}\<newline>'' @ fence)
   \<and> \<not> sublist fence (S ''css\<newline>body{}\<newline>'' @ butlast fence)
   \<and> language_marker (S ''css\<newline>body{}\<newline>'') = S ''css''
   \<and> py_strip (after_language_marker (S ''css\<newline>body{}\<newline>'')) = S ''body{}''
   \<and> extract_html (fence @ S ''css\<newline>body{}\<newline>'' @ fence) = S ''css\<newline>body{}''
   \<and> extract_html (fence @ S ''css\<newline>body{}\<newline>'' @ fence)
       \<noteq> py_strip (after_language_marker (S ''css\<newline>body{}\<newline>''))"
proof -
  let ?b = "S ''css\<newline>body{}\<newline>''"
  have h0: "\<not> sublist fence_html ([] @ fence @ ?b @ fence @ [])"
    by (simp add: literal_defs)
  have h1: "\<not> sublist fence ([] @ butlast fence)"
    by (simp add: literal_defs)
  have h2: "\<not> sublist fence (?b @ butlast fence)"
    by (simp add: literal_defs)
  have m: "language_marker ?b = S ''css''"
    by (simp add: language_marker_def S_def is_space_def)
  have a: "py_strip (after_language_marker ?b) = S ''body{}''"
    by (simp add: after_language_marker_def language_marker_def S_def strip_defs)
  have s: "py_strip ?b = S ''css\<newline>body{}''"
    by (simp add: S_def strip_defs)
  have e: "extract_html (fence @ ?b @ fence) = S ''css\<newline>body{}''"
    using extract_html_generic_fence[OF h0 refl h1 h2] s by simp
  have ne: "S ''css\<newline>body{}'' \<noteq> S ''body{}''"
    by (simp add: S_def)
  show ?thesis
    using h0 h2 m a e ne by simp
qed

section \<open>Extraction: the fallback\<close>




section \<open>The Generate button and a failed analysis\<close>

text \<open>
  C7, as the code has it. When \<open>analyze_design\<close> returns a result whose \<open>success\<close> is
  false, that result's error is the message the service raised, the button shows one
  error, the label \<open>Analysis Error:\<close> after a cross mark followed by that message
  unchanged, and stops the run. The session state is left as it was, so no generated
  page is stored, and the world is the one \<open>analyze_design\<close> left: the only request
  sent is the analysis prompt, so \<open>generate_html_css\<close> was not called.
\<close>

theorem analysis_failure_stops_before_synthesis:
  assumes "analyze_design m w img (custom_instructions c) = (Inr a, w1)"
    and "\<not> truthy (a ''success'')"
  shows "fst (m (remote w) (analysis_prompt (custom_instructions c)) img) = Raised (fmt (a ''error''))
       \<and> generate_button m w ss img c =
           \<lparr>shown = [StError (cross_mark @ S '' Analysis Error: '' @ fmt (a ''error''))],
            state = ss, world = w1, stopped = True, escaped = None\<rparr>
       \<and> sent w1 = sent w @ [analysis_prompt (custom_instructions c)]"
proof -
  have "fst (m (remote w) (analysis_prompt (custom_instructions c)) img) = Raised (fmt (a ''error''))"
    using analyze_design_cases[of m w img "custom_instructions c"] assms
    by (auto simp: truthy_def fmt_def)
  moreover have "sent w1 = sent w @ [analysis_prompt (custom_instructions c)]"
    using analyze_design_sent[of m w img "custom_instructions c"] assms(1) by simp
  ultimately show ?thesis
    using generate_button_analysis_failure[OF assms] by simp
qed

theorem analysis_failure_stops_before_synthesis_witness:
  "generate_button quota_model world0 session0 () dark_large_animated =
     \<lparr>shown = [StError (cross_mark @ S '' Analysis Error: '' @ S ''quota exceeded'')],
      state = session0,
      world = \<lparr>remote = (), sent = [analysis_prompt (S ''Add a sticky navigation bar'')]\<rparr>,
      stopped = True, escaped = None\<rparr>"
proof -
  have ci: "custom_instructions dark_large_animated = S ''Add a sticky navigation bar''"
    by (simp add: dark_large_animated_def)
  have h1: "analyze_design quota_model world0 () (custom_instructions dark_large_animated) =
     (Inr [''error'' \<mapsto> VStr (S ''quota exceeded''), ''success'' \<mapsto> VBool False],
      \<lparr>remote = (), sent = [analysis_prompt (S ''Add a sticky navigation bar'')]\<rparr>)"
    by (simp add: analyze_design_def generate_content_def quota_model_def world0_def ci)
  have h2: "\<not> truthy ([''error'' \<mapsto> VStr (S ''quota exceeded''), ''success'' \<mapsto> VBool False] ''success'')"
    by (simp add: truthy_def)
  have f: "fmt ([''error'' \<mapsto> VStr (S ''quota exceeded''), ''success'' \<mapsto> VBool False] ''error'')
             = S ''quota exceeded''"
    by (simp add: fmt_def)
  show ?thesis
    using analysis_failure_stops_before_synthesis[OF h1 h2, of session0] f by simp
qed

text \<open>
  The service refuses with \<open>quota exceeded\<close>: what the button shows is the labelled
  message, not the bare one.
\<close>

theorem analysis_error_is_shown_with_a_label:
  "fst (quota_model (remote world0) (analysis_prompt (custom_instructions no_customizations)) ())
     = Raised (S ''quota exceeded'')
   \<and> shown (generate_button quota_model world0 session0 () no_customizations)
       = [StError (cross_mark @ S '' Analysis Error: quota exceeded'')]
   \<and> shown (generate_button quota_model world0 session0 () no_customizations)
       \<noteq> [StError (S ''quota exceeded'')]"
proof -
  have h1: "analyze_design quota_model world0 () (custom_instructions no_customizations) =
     (Inr [''error'' \<mapsto> VStr (S ''quota exceeded''), ''success'' \<mapsto> VBool False],
      \<lparr>remote = (), sent = [analysis_prompt (custom_instructions no_customizations)]\<rparr>)"
    by (simp add: analyze_design_def generate_content_def quota_model_def world0_def)
  have h2: "\<not> truthy ([''error'' \<mapsto> VStr (S ''quota exceeded''), ''success'' \<mapsto> VBool False] ''success'')"
    by (simp add: truthy_def)
  have f: "fmt ([''error'' \<mapsto> VStr (S ''quota exceeded''), ''success'' \<mapsto> VBool False] ''error'')
             = S ''quota exceeded''"
    by (simp add: fmt_def)
  have "shown (generate_button quota_model world0 session0 () no_customizations)
       = [StError (cross_mark @ S '' Analysis Error: '' @ S ''quota exceeded'')]"
    using generate_button_analysis_failure[OF h1 h2, of session0] f by simp
  moreover have "cross_mark @ S '' Analysis Error: '' @ S ''quota exceeded''
                   = cross_mark @ S '' Analysis Error: quota exceeded''"
    by (simp add: S_def)
  moreover have "cross_mark @ S '' Analysis Error: quota exceeded'' \<noteq> S ''quota exceeded''"
    by (simp add: S_def cross_mark_def)
  ultimately show ?thesis
    by (simp add: quota_model_def)
qed

section \<open>Service errors\<close>

text \<open>
  C8, as the code has it. In \<open>analyze_design\<close> and in \<open>generate_html_css\<close>, an
  exception of class \<open>Exception\<close> raised by the service call is caught: the method
  returns the dictionary with the exception's message, unchanged, under \<open>error\<close> and
  \<open>success\<close> false. An exception outside \<open>Exception\<close> is not caught and leaves the
  method, which then returns no result. Each call sends exactly one request, whatever
  the outcome, so nothing is retried. Every result that is returned has exactly the
  keys of one of the two shapes, the payload (\<open>raw_analysis\<close> or \<open>html\<close>) with
  \<open>success\<close> true, or \<open>error\<close> with \<open>success\<close> false, never both.
\<close>

theorem service_errors_become_failure_results:
  "(m (remote w) (analysis_prompt ci) img = (Raised msg, r1) \<longrightarrow>
      analyze_design m w img ci =
        (Inr [''error'' \<mapsto> VStr msg, ''success'' \<mapsto> VBool False],
         \<lparr>remote = r1, sent = sent w @ [analysis_prompt ci]\<rparr>))
   \<and> (m (remote w) (code_prompt (raw_analysis_text a) (customization_text c)) img = (Raised msg, r1) \<longrightarrow>
      generate_html_css m w a img c =
        (Inr [''error'' \<mapsto> VStr msg, ''success'' \<mapsto> VBool False],
         \<lparr>remote = r1,
          sent = sent w @ [code_prompt (raw_analysis_text a) (customization_text c)]\<rparr>))
   \<and> (m (remote w) (analysis_prompt ci) img = (Escaped x, r2) \<longrightarrow>
      analyze_design m w img ci =
        (Inl x, \<lparr>remote = r2, sent = sent w @ [analysis_prompt ci]\<rparr>))
   \<and> (m (remote w) (code_prompt (raw_analysis_text a) (customization_text c)) img = (Escaped x, r2) \<longrightarrow>
      generate_html_css m w a img c =
        (Inl x, \<lparr>remote = r2,
                 sent = sent w @ [code_prompt (raw_analysis_text a) (customization_text c)]\<rparr>))
   \<and> sent (snd (analyze_design m w img ci)) = sent w @ [analysis_prompt ci]
   \<and> sent (snd (generate_html_css m w a img c)) =
       sent w @ [code_prompt (raw_analysis_text a) (customization_text c)]
   \<and> (fst (analyze_design m w img ci) = Inr d \<longrightarrow>
        dom d = {''raw_analysis'', ''success''} \<and> d ''success'' = Some (VBool True)
      \<or> dom d = {''error'', ''success''} \<and> d ''success'' = Some (VBool False))
   \<and> (fst (generate_html_css m w a img c) = Inr d' \<longrightarrow>
        dom d' = {''html'', ''success''} \<and> d' ''success'' = Some (VBool True)
      \<or> dom d' = {''error'', ''success''} \<and> d' ''success'' = Some (VBool False))"
  using analyze_design_failure[of m w ci img msg r1] generate_html_css_failure[of m w a c img msg r1]
    analyze_design_escapes[of m w ci img x r2] generate_html_css_escapes[of m w a c img x r2]
    analyze_design_sent[of m w img ci] generate_html_css_sent[of m w a img c]
    analyze_design_keys[of m w img ci d] generate_html_css_keys[of m w a img c d']
  by blast

text \<open>
  A service that raises \<open>quota exceeded\<close>: both methods return the failure result with
  that message. A service call interrupted from the keyboard: the interrupt leaves
  both methods.
\<close>

theorem service_errors_become_failure_results_witness:
  "analyze_design quota_model world0 () [] =
     (Inr [''error'' \<mapsto> VStr (S ''quota exceeded''), ''success'' \<mapsto> VBool False],
      \<lparr>remote = (), sent = [analysis_prompt []]\<rparr>)
   \<and> generate_html_css quota_model world0 Map.empty () no_customizations =
     (Inr [''error'' \<mapsto> VStr (S ''quota exceeded''), ''success'' \<mapsto> VBool False],
      \<lparr>remote = (),
       sent = [code_prompt (raw_analysis_text Map.empty) (customization_text no_customizations)]\<rparr>)
   \<and> dom [''error'' \<mapsto> VStr (S ''quota exceeded''), ''success'' \<mapsto> VBool False]
       = {''error'', ''success''}
   \<and> analyze_design interrupted_model world0 () [] =
     (Inl (S ''KeyboardInterrupt''), \<lparr>remote = (), sent = [analysis_prompt []]\<rparr>)
   \<and> generate_html_css interrupted_model world0 Map.empty () no_customizations =
     (Inl (S ''KeyboardInterrupt''),
      \<lparr>remote = (),
       sent = [code_prompt (raw_analysis_text Map.empty) (customization_text no_customizations)]\<rparr>)"
proof -
  let ?d = "[''error'' \<mapsto> VStr (S ''quota exceeded''), ''success'' \<mapsto> VBool False]"
  have h1: "quota_model (remote world0) (analysis_prompt []) () = (Raised (S ''quota exceeded''), ())"
    by (simp add: quota_model_def)
  have h2: "quota_model (remote world0)
              (code_prompt (raw_analysis_text Map.empty) (customization_text no_customizations)) ()
            = (Raised (S ''quota exceeded''), ())"
    by (simp add: quota_model_def)
  have h3: "interrupted_model (remote world0) (analysis_prompt []) ()
            = (Escaped (S ''KeyboardInterrupt''), ())"
    by (simp add: interrupted_model_def)
  have h4: "interrupted_model (remote world0)
              (code_prompt (raw_analysis_text Map.empty) (customization_text no_customizations)) ()
            = (Escaped (S ''KeyboardInterrupt''), ())"
    by (simp add: interrupted_model_def)
  have s: "sent world0 = []"
    by (simp add: world0_def)
  note Q = service_errors_become_failure_results[of quota_model world0 "[]" "()"
        "S ''quota exceeded''" "()" Map.empty no_customizations _ _ ?d ?d]
  note I = service_errors_become_failure_results[of interrupted_model world0 "[]" "()"
        _ _ Map.empty no_customizations "S ''KeyboardInterrupt''" "()"]
  have q1: "analyze_design quota_model world0 () [] =
     (Inr ?d, \<lparr>remote = (), sent = [analysis_prompt []]\<rparr>)"
    using Q h1 s by simp
  have q2: "generate_html_css quota_model world0 Map.empty () no_customizations =
     (Inr ?d, \<lparr>remote = (),
       sent = [code_prompt (raw_analysis_text Map.empty) (customization_text no_customizations)]\<rparr>)"
    using Q h2 s by simp
  have "dom ?d = {''raw_analysis'', ''success''} \<and> ?d ''success'' = Some (VBool True)
      \<or> dom ?d = {''error'', ''success''} \<and> ?d ''success'' = Some (VBool False)"
    using Q q1 by simp
  then have q3: "dom ?d = {''error'', ''success''}"
    by auto
  have i1: "analyze_design interrupted_model world0 () [] =
     (Inl (S ''KeyboardInterrupt''), \<lparr>remote = (), sent = [analysis_prompt []]\<rparr>)"
    using I h3 s by simp
  have i2: "generate_html_css interrupted_model world0 Map.empty () no_customizations =
     (Inl (S ''KeyboardInterrupt''),
      \<lparr>remote = (),
       sent = [code_prompt (raw_analysis_text Map.empty) (customization_text no_customizations)]\<rparr>)"
    using I h4 s by simp
  show ?thesis
    using q1 q2 q3 i1 i2 by blast
qed

text \<open>
  The service call is interrupted from the keyboard, which raises an exception that is
  not an \<open>Exception\<close>: neither method catches it, and neither returns a result.
\<close>

theorem keyboard_interrupt_leaves_the_methods:
  "fst (interrupted_model (remote world0) (analysis_prompt []) ()) = Escaped (S ''KeyboardInterrupt'')
   \<and> fst (analyze_design interrupted_model world0 () []) = Inl (S ''KeyboardInterrupt'')
   \<and> fst (analyze_design interrupted_model world0 () [])
       \<noteq> Inr [''error'' \<mapsto> VStr (S ''KeyboardInterrupt''), ''success'' \<mapsto> VBool False]
   \<and> isl (fst (analyze_design interrupted_model world0 () []))
   \<and> fst (generate_html_css interrupted_model world0 Map.empty () no_customizations)
       = Inl (S ''KeyboardInterrupt'')
   \<and> isl (fst (generate_html_css interrupted_model world0 Map.empty () no_customizations))"
proof -
  have h3: "interrupted_model (remote world0) (analysis_prompt []) ()
            = (Escaped (S ''KeyboardInterrupt''), ())"
    by (simp add: interrupted_model_def)
  have h4: "interrupted_model (remote world0)
              (code_prompt (raw_analysis_text Map.empty) (customization_text no_customizations)) ()
            = (Escaped (S ''KeyboardInterrupt''), ())"
    by (simp add: interrupted_model_def)
  show ?thesis
    using analyze_design_escapes[of interrupted_model world0 "[]" "()" "S ''KeyboardInterrupt''" "()"]
      generate_html_css_escapes[of interrupted_model world0 Map.empty no_customizations "()"
        "S ''KeyboardInterrupt''" "()"]
      h3 h4 by simp
qed

section \<open>Extraction: a document cut off before its closing tag\<close>

text \<open>
  C9. In a text without fences that has a doctype declaration, first right after
  \<open>pre\<close>, and no closing root tag, the slice would end at index 6. A doctype starting
  at index 6 or later gives the whole text, trimmed. A doctype starting before index 6
  gives the slice from its start to index 6, a beginning of the doctype declaration
  itself; for a text that starts with the doctype this is the six characters
  \<open><!DOCT\<close>.
\<close>

theorem truncated_document_slices_to_six:
  assumes "\<not> sublist fence t"
    and "t = pre @ doctype @ rest"
    and "\<not> sublist doctype (pre @ butlast doctype)"
    and "\<not> sublist closing_tag t"
  shows "(6 \<le> length pre \<longrightarrow> extract_html t = py_strip t)
       \<and> (length pre < 6 \<longrightarrow> extract_html t = py_slice t (int (length pre)) 6
                              \<and> extract_html t = take (6 - length pre) doctype)
       \<and> (pre = [] \<longrightarrow> extract_html t = S ''<!DOCT'')"
proof -
  have "take 6 doctype = S ''<!DOCT''"
    by (simp add: doctype_def S_def)
  then show ?thesis
    using extract_html_truncated[OF assms] by auto
qed

theorem truncated_document_slices_to_six_witness:
  "extract_html ([] @ doctype @ S '' html><html><body><p>cut'') = S ''<!DOCT''
   \<and> extract_html (S ''  <!DOCTYPE html><p>cut'') = S ''<!DO''
   \<and> extract_html (S ''Here you go: <!DOCTYPE html><p>cut '') = S ''Here you go: <!DOCTYPE html><p>cut''"
proof -
  have a0: "\<not> sublist fence ([] @ doctype @ S '' html><html><body><p>cut'')"
    by (simp add: literal_defs)
  have a1: "\<not> sublist doctype ([] @ butlast doctype)"
    by (simp add: literal_defs)
  have a2: "\<not> sublist closing_tag ([] @ doctype @ S '' html><html><body><p>cut'')"
    by (simp add: literal_defs)
  have b0: "\<not> sublist fence (S ''  '' @ doctype @ S '' html><p>cut'')"
    by (simp add: literal_defs)
  have b1: "\<not> sublist doctype (S ''  '' @ butlast doctype)"
    by (simp add: literal_defs)
  have b2: "\<not> sublist closing_tag (S ''  '' @ doctype @ S '' html><p>cut'')"
    by (simp add: literal_defs)
  have b3: "S ''  <!DOCTYPE html><p>cut'' = S ''  '' @ doctype @ S '' html><p>cut''"
    by (simp add: literal_defs)
  have b4: "take (6 - length (S ''  '')) doctype = S ''<!DO''"
    by (simp add: literal_defs)
  have c0: "\<not> sublist fence (S ''Here you go: '' @ doctype @ S '' html><p>cut '')"
    by (simp add: literal_defs)
  have c1: "\<not> sublist doctype (S ''Here you go: '' @ butlast doctype)"
    by (simp add: literal_defs)
  have c2: "\<not> sublist closing_tag (S ''Here you go: '' @ doctype @ S '' html><p>cut '')"
    by (simp add: literal_defs)
  have c3: "S ''Here you go: <!DOCTYPE html><p>cut '' = S ''Here you go: '' @ doctype @ S '' html><p>cut ''"
    by (simp add: literal_defs)
  have c4: "py_strip (S ''Here you go: <!DOCTYPE html><p>cut '') = S ''Here you go: <!DOCTYPE html><p>cut''"
    by (simp add: literal_defs strip_defs)
  have c5: "6 \<le> length (S ''Here you go: '')" "length (S ''  '') < 6"
    by (simp_all add: S_def)
  have r1: "extract_html ([] @ doctype @ S '' html><html><body><p>cut'') = S ''<!DOCT''"
    using truncated_document_slices_to_six[OF a0 refl a1 a2] by blast
  have "extract_html (S ''  '' @ doctype @ S '' html><p>cut'') = take (6 - length (S ''  '')) doctype"
    using truncated_document_slices_to_six[OF b0 refl b1 b2] c5(2) by blast
  then have r2: "extract_html (S ''  <!DOCTYPE html><p>cut'') = S ''<!DO''"
    by (simp only: b3 b4)
  have "extract_html (S ''Here you go: '' @ doctype @ S '' html><p>cut '')
          = py_strip (S ''Here you go: '' @ doctype @ S '' html><p>cut '')"
    using truncated_document_slices_to_six[OF c0 refl c1 c2] c5(1) by blast
  then have r3: "extract_html (S ''Here you go: <!DOCTYPE html><p>cut '')
                   = S ''Here you go: <!DOCTYPE html><p>cut''"
    using c4 by (simp only: c3)
  show ?thesis
    using r1 r2 r3 by blast
qed

section \<open>Extraction: a fence that is never closed\<close>

text \<open>
  C10. When the opening fence, tagged \<open>html\<close> or generic, is followed by no closing
  fence, the search for the closing fence yields \<open>-1\<close>, which is used as the end of
  the slice: the result is the remainder \<open>rest\<close> of the text after the opening marker
  without its last character, trimmed.
\<close>

theorem unclosed_fence_drops_last_character:
  "(t = pre @ fence_html @ rest \<and> \<not> sublist fence_html (pre @ butlast fence_html)
      \<and> \<not> sublist fence rest
     \<longrightarrow> extract_html t = py_strip (butlast rest)) \<and>
   (\<not> sublist fence_html t \<and> t = pre @ fence @ rest \<and> \<not> sublist fence (pre @ butlast fence)
      \<and> \<not> sublist fence rest
     \<longrightarrow> extract_html t = py_strip (butlast rest))"
  using extract_html_html_unclosed[of t pre rest] extract_html_generic_unclosed[of t pre rest]
  by blast

theorem unclosed_fence_drops_last_character_witness:
  "extract_html (S ''Page: '' @ fence_html @ S ''\<newline><p>hi</p>'') = S ''<p>hi</p''
   \<and> extract_html (S ''Page: '' @ fence @ S ''\<newline><p>hi</p>'') = S ''<p>hi</p''"
proof -
  have h1: "\<not> sublist fence_html (S ''Page: '' @ butlast fence_html)"
    by (simp add: literal_defs)
  have h2: "\<not> sublist fence (S ''\<newline><p>hi</p>'')"
    by (simp add: literal_defs)
  have h3: "\<not> sublist fence_html (S ''Page: '' @ fence @ S ''\<newline><p>hi</p>'')"
    by (simp add: literal_defs)
  have h4: "\<not> sublist fence (S ''Page: '' @ butlast fence)"
    by (simp add: literal_defs)
  have e: "py_strip (butlast (S ''\<newline><p>hi</p>'')) = S ''<p>hi</p''"
    by (simp add: literal_defs strip_defs)
  have "extract_html (S ''Page: '' @ fence_html @ S ''\<newline><p>hi</p>'')
          = py_strip (butlast (S ''\<newline><p>hi</p>''))"
    using unclosed_fence_drops_last_character[of "S ''Page: '' @ fence_html @ S ''\<newline><p>hi</p>''"
        "S ''Page: ''" "S ''\<newline><p>hi</p>''"] h1 h2 by blast
  moreover have "extract_html (S ''Page: '' @ fence @ S ''\<newline><p>hi</p>'')
          = py_strip (butlast (S ''\<newline><p>hi</p>''))"
    using unclosed_fence_drops_last_character[of "S ''Page: '' @ fence @ S ''\<newline><p>hi</p>''"
        "S ''Page: ''" "S ''\<newline><p>hi</p>''"] h3 h4 h2 by blast
  ultimately show ?thesis
    by (simp only: e)
qed

end
